theory Spec2Isabelle
  imports Main
begin

section \<open>Data model\<close>

text \<open>
  The server keeps its data in MongoDB through Mongoose schemas. An \<open>ObjectId\<close> is an
  opaque identifier compared with \<open>equals\<close> (or by its string form); a \<open>Date\<close> is a
  point in time. Both are modelled as natural numbers.
\<close>

type_synonym object_id = nat
type_synonym date = nat

text \<open>
  One entry of the \<open>upvotes\<close> or \<open>downvotes\<close> array of a question or an answer
  (the Question model, \<open>src/unnamed/part_000\<close> lines 31-50; the Answer model,
  \<open>src/server/models/Answer.js\<close> lines 23-42).
\<close>

record vote =
  user :: object_id
  createdAt :: date

text \<open>
  The fields that the Question and the Answer schema share: the author and the vote
  ledger with its cached tally. Both schemas extend this record below, so the vote
  methods, whose text is the same in both model files, are defined once on the common
  part.
\<close>

record content_item =
  author :: object_id
  votes :: int
  upvotes :: "vote list"
  downvotes :: "vote list"

section \<open>The vote methods of the Question and Answer models\<close>

text \<open>
  \<open>schema.pre('save', ...)\<close> (Question model 150-153, \<open>Answer.js\<close> 117-120) recomputes
  the tally from the lengths of the two arrays each time a document is saved.
\<close>

definition pre_save :: "'a content_item_scheme \<Rightarrow> 'a content_item_scheme" where
  "pre_save this =
     this\<lparr>votes := int (length (upvotes this)) - int (length (downvotes this))\<rparr>"

text \<open>
  \<open>addUpvote\<close> (Question model 156-172, \<open>Answer.js\<close> 123-139) and \<open>addDownvote\<close>
  (Question model 175-191, \<open>Answer.js\<close> 142-158). The result is the document as it is
  handed to the store: the method ends in \<open>this.save()\<close>, which runs the pre-save hook.
  The entry pushed gets \<open>Date.now\<close> as its \<open>createdAt\<close> default, passed here as
  \<open>now\<close>. Writing the document to the store is \<open>save_question\<close> and \<open>save_answer\<close>
  below.
\<close>

definition addUpvote :: "date \<Rightarrow> object_id \<Rightarrow> 'a content_item_scheme \<Rightarrow> 'a content_item_scheme" where
  "addUpvote now userId this =
     (let this1 = this\<lparr>downvotes := filter (\<lambda>v. user v \<noteq> userId) (downvotes this)\<rparr>;
          existingUpvote = find (\<lambda>v. user v = userId) (upvotes this1);
          this2 = (if existingUpvote \<noteq> None
                   then this1\<lparr>upvotes := filter (\<lambda>v. user v \<noteq> userId) (upvotes this1)\<rparr>
                   else this1\<lparr>upvotes := upvotes this1 @ [\<lparr>user = userId, createdAt = now\<rparr>]\<rparr>);
          this3 = this2\<lparr>votes := int (length (upvotes this2)) - int (length (downvotes this2))\<rparr>
      in pre_save this3)"

definition addDownvote :: "date \<Rightarrow> object_id \<Rightarrow> 'a content_item_scheme \<Rightarrow> 'a content_item_scheme" where
  "addDownvote now userId this =
     (let this1 = this\<lparr>upvotes := filter (\<lambda>v. user v \<noteq> userId) (upvotes this)\<rparr>;
          existingDownvote = find (\<lambda>v. user v = userId) (downvotes this1);
          this2 = (if existingDownvote \<noteq> None
                   then this1\<lparr>downvotes := filter (\<lambda>v. user v \<noteq> userId) (downvotes this1)\<rparr>
                   else this1\<lparr>downvotes := downvotes this1 @ [\<lparr>user = userId, createdAt = now\<rparr>]\<rparr>);
          this3 = this2\<lparr>votes := int (length (upvotes this2)) - int (length (downvotes this2))\<rparr>
      in pre_save this3)"

text \<open>A sequence of vote calls on one document, applied from left to right.\<close>

datatype vote_call = AddUpvote date object_id | AddDownvote date object_id

fun apply_call :: "'a content_item_scheme \<Rightarrow> vote_call \<Rightarrow> 'a content_item_scheme" where
  "apply_call this (AddUpvote now userId) = addUpvote now userId this"
| "apply_call this (AddDownvote now userId) = addDownvote now userId this"

definition run_calls :: "vote_call list \<Rightarrow> 'a content_item_scheme \<Rightarrow> 'a content_item_scheme" where
  "run_calls calls this = foldl apply_call this calls"

subsection \<open>The ledger as the specification sees it\<close>

definition upvoters :: "'a content_item_scheme \<Rightarrow> object_id set" where
  "upvoters c = user ` set (upvotes c)"

definition downvoters :: "'a content_item_scheme \<Rightarrow> object_id set" where
  "downvoters c = user ` set (downvotes c)"

text \<open>Invariant I1: no user is in both sets.\<close>

definition I1 :: "'a content_item_scheme \<Rightarrow> bool" where
  "I1 c = (upvoters c \<inter> downvoters c = {})"

text \<open>Invariant I2: the cached tally is the number of upvote entries minus the number of
  downvote entries.\<close>

definition I2 :: "'a content_item_scheme \<Rightarrow> bool" where
  "I2 c = (votes c = int (length (upvotes c)) - int (length (downvotes c)))"

text \<open>Each array holds a user at most once, so that it stands for a set of users.\<close>

definition ledger_distinct :: "'a content_item_scheme \<Rightarrow> bool" where
  "ledger_distinct c = (distinct (map user (upvotes c)) \<and> distinct (map user (downvotes c)))"

section \<open>Documents and the store\<close>

text \<open>
  The Question schema (\<open>src/unnamed/part_000\<close>) and the Answer schema
  (\<open>src/server/models/Answer.js\<close>), with the fields that the vote and accept endpoints read or
  write, and \<open>closedReason\<close> of a question, whose schema default does not pass its own
  validator (see \<open>validate_question\<close> below). Titles, texts, tags, views, comments, edit
  history and the bookkeeping of a deletion are left out: the endpoints do not touch them, and
  a document is taken to hold values for them that pass their validators.
\<close>

record question = content_item +
  acceptedAnswer :: "object_id option"
  isClosed :: bool
  closedReason :: "string option"

record answer = content_item +
  question :: object_id
  isAccepted :: bool
  acceptedAt :: "date option"
  isDeleted :: bool

text \<open>
  Modelled from the spec: the User model (\<open>models/User.js\<close>) is not among the sources.
  The specification describes a ledger entry per user whose \<open>score\<close> is a running
  integer of unbounded sign, changed only by adding signed deltas.
\<close>

record user_doc =
  reputation :: int

text \<open>
  A notification (the Notification model, \<open>src/unnamed/part_001\<close>). Its title, message and action URL are
  texts computed from the fields kept here.
\<close>

record notification =
  recipient :: object_id
  sender :: object_id
  kind :: string
  relatedQuestion :: "object_id option"
  relatedAnswer :: "object_id option"

record db =
  questions :: "object_id \<rightharpoonup> question"
  answers :: "object_id \<rightharpoonup> answer"
  users :: "object_id \<rightharpoonup> user_doc"
  notifications :: "notification list"

subsection \<open>Saving a loaded document\<close>

text \<open>
  \<open>save()\<close> on a document that was loaded from the store sends an update holding the
  paths that were modified since the document was loaded; Mongoose marks a path as modified
  when it is assigned a value that differs from the one it has, and an assignment of the
  value it already has modifies nothing. A path that is not modified keeps what the store
  holds for it. \<open>write_path\<close> is this rule for one path: \<open>loaded\<close> is the value the
  document was loaded with, \<open>current\<close> the value it has when it is saved. (In Mongoose,
  \<open>Document.set\<close> calls \<open>markModified\<close> only when the new value is not deeply equal to
  the prior one, and \<open>save()\<close> builds its \<open>$set\<close> from the modified paths.) For a
  document that the store still holds as it was loaded, this is the same as writing the whole
  document (\<open>save_question_loaded\<close>, \<open>save_answer_loaded\<close>, \<open>save_user_loaded\<close> below);
  the two differ only where the store changed the document after it was loaded.
\<close>

definition write_path :: "'v \<Rightarrow> 'v \<Rightarrow> 'v \<Rightarrow> 'v" where
  "write_path loaded current stored = (if current = loaded then stored else current)"

definition save_content ::
    "'a content_item_scheme \<Rightarrow> 'b content_item_scheme \<Rightarrow> 'c content_item_scheme \<Rightarrow> 'c content_item_scheme" where
  "save_content loaded this stored =
     stored\<lparr>author := write_path (author loaded) (author this) (author stored),
            votes := write_path (votes loaded) (votes this) (votes stored),
            upvotes := write_path (upvotes loaded) (upvotes this) (upvotes stored),
            downvotes := write_path (downvotes loaded) (downvotes this) (downvotes stored)\<rparr>"

text \<open>
  Before it writes, \<open>save()\<close> validates the document, and rejects with a
  \<open>ValidationError\<close> when a path fails its validator; nothing is written then. The paths
  validated include those the document was loaded with. \<open>closedReason\<close> of a question
  (Question schema, lines 82-86) is a String with an \<open>enum\<close> and the default \<open>null\<close>.
  The enum validator of Mongoose 7 (the version of \<open>src/server/package.json\<close>) accepts
  \<open>undefined\<close> and the listed values only, so \<open>null\<close> fails it: a question whose
  \<open>closedReason\<close> is \<open>null\<close>, as the schema default makes it, cannot be saved.
\<close>

datatype error = ValidationError

definition closedReason_enum :: "string list" where
  "closedReason_enum = [''duplicate'', ''off-topic'', ''too-broad'', ''unclear'', ''spam'']"

definition validate_question :: "question \<Rightarrow> bool" where
  "validate_question this =
     (case closedReason this of
        None \<Rightarrow> False
      | Some reason \<Rightarrow> reason \<in> set closedReason_enum)"

text \<open>
  The endpoints save a document only after they have loaded it and delete nothing in
  between, so the document is in the store when it is saved; saving a document that is not
  there changes nothing here.
\<close>

definition save_question :: "object_id \<Rightarrow> question \<Rightarrow> question \<Rightarrow> db \<Rightarrow> error + db" where
  "save_question qid loaded this s =
     (if \<not> validate_question this then Inl ValidationError
      else
        (case questions s qid of
           None \<Rightarrow> Inr s
         | Some stored \<Rightarrow>
             Inr (s\<lparr>questions := (questions s)(qid \<mapsto>
                   (save_content loaded this stored)
                     \<lparr>acceptedAnswer :=
                        write_path (acceptedAnswer loaded) (acceptedAnswer this) (acceptedAnswer stored),
                      isClosed := write_path (isClosed loaded) (isClosed this) (isClosed stored),
                      closedReason :=
                        write_path (closedReason loaded) (closedReason this) (closedReason stored)\<rparr>)\<rparr>)))"

definition save_answer :: "object_id \<Rightarrow> answer \<Rightarrow> answer \<Rightarrow> db \<Rightarrow> db" where
  "save_answer aid loaded this s =
     (case answers s aid of
        None \<Rightarrow> s
      | Some stored \<Rightarrow>
          s\<lparr>answers := (answers s)(aid \<mapsto>
              (save_content loaded this stored)
                \<lparr>question := write_path (question loaded) (question this) (question stored),
                 isAccepted := write_path (isAccepted loaded) (isAccepted this) (isAccepted stored),
                 acceptedAt := write_path (acceptedAt loaded) (acceptedAt this) (acceptedAt stored),
                 isDeleted := write_path (isDeleted loaded) (isDeleted this) (isDeleted stored)\<rparr>)\<rparr>)"

definition save_user :: "object_id \<Rightarrow> user_doc \<Rightarrow> user_doc \<Rightarrow> db \<Rightarrow> db" where
  "save_user uid loaded this s =
     (case users s uid of
        None \<Rightarrow> s
      | Some stored \<Rightarrow>
          s\<lparr>users := (users s)(uid \<mapsto>
              stored\<lparr>reputation :=
                write_path (reputation loaded) (reputation this) (reputation stored)\<rparr>)\<rparr>)"

text \<open>
  \<open>Answer.findByIdAndUpdate(id, update)\<close> applies the update to the stored document
  with that id, if there is one.
\<close>

definition Answer_findByIdAndUpdate :: "object_id \<Rightarrow> (answer \<Rightarrow> answer) \<Rightarrow> db \<Rightarrow> db" where
  "Answer_findByIdAndUpdate aid update s =
     (case answers s aid of
        None \<Rightarrow> s
      | Some stored \<Rightarrow> s\<lparr>answers := (answers s)(aid \<mapsto> update stored)\<rparr>)"

subsection \<open>Model methods used by the endpoints\<close>

text \<open>\<open>answerSchema.methods.accept\<close> (\<open>Answer.js\<close> 161-165); its \<open>save()\<close> runs the
  pre-save hook.\<close>

definition accept :: "date \<Rightarrow> answer \<Rightarrow> answer" where
  "accept now this = pre_save (this\<lparr>isAccepted := True, acceptedAt := Some now\<rparr>)"

text \<open>
  Modelled from the spec: \<open>updateReputation\<close> is a method of the User model, which is
  not among the sources. The specification has the ledger changed only by applying a signed
  delta to the score, which may become negative.
\<close>

definition updateReputation :: "int \<Rightarrow> user_doc \<Rightarrow> user_doc" where
  "updateReputation delta this = this\<lparr>reputation := reputation this + delta\<rparr>"

text \<open>
  \<open>createNotification\<close> (Notification model 134-142), \<open>notifyUpvote\<close> (219-230) and
  \<open>notifyAcceptedAnswer\<close> (232-243). \<open>contentQuestion\<close> is the \<open>question\<close> field
  of the content passed, which a question does not have.
\<close>

definition createNotification :: "notification \<Rightarrow> db \<Rightarrow> db" where
  "createNotification data s =
     (if sender data = recipient data then s
      else s\<lparr>notifications := notifications s @ [data]\<rparr>)"

definition notifyUpvote ::
    "object_id \<Rightarrow> object_id \<Rightarrow> object_id \<Rightarrow> object_id option \<Rightarrow> string \<Rightarrow> db \<Rightarrow> db" where
  "notifyUpvote contentAuthor voter contentId contentQuestion contentType s =
     createNotification
       \<lparr>recipient = contentAuthor, sender = voter, kind = ''upvote'',
        relatedQuestion = (if contentType = ''question'' then Some contentId else contentQuestion),
        relatedAnswer = (if contentType = ''answer'' then Some contentId else None)\<rparr> s"

definition notifyAcceptedAnswer :: "object_id \<Rightarrow> object_id \<Rightarrow> object_id \<Rightarrow> object_id \<Rightarrow> db \<Rightarrow> db" where
  "notifyAcceptedAnswer answerAuthor questionAuthor answerId answerQuestion s =
     createNotification
       \<lparr>recipient = answerAuthor, sender = questionAuthor, kind = ''accept'',
        relatedQuestion = Some answerQuestion, relatedAnswer = Some answerId\<rparr> s"

section \<open>The endpoints\<close>

text \<open>
  A request carries the bearer token, the \<open>:id\<close> parameter of the path (\<open>None\<close> when
  it is not the text of an ObjectId, for which \<open>findById\<close> throws a \<open>CastError\<close>) and
  the \<open>type\<close> field of the body. A response is the status and the JSON body.

  The \<open>type\<close> field is a JSON value: a string, an array of values, or something else (a
  number, a boolean, \<open>null\<close>, an object, or no field at all), kept as the text that
  JavaScript prints for it inside an array (the empty text for \<open>null\<close> and for no field).
\<close>

datatype token = NoToken | InvalidToken | ExpiredToken | Token object_id

datatype body_value = Text string | Items "body_value list" | Other string

fun join :: "string list \<Rightarrow> string" where
  "join [] = []"
| "join [x] = x"
| "join (x # y # ys) = x @ '','' @ join (y # ys)"

text \<open>\<open>String(value)\<close>: an array prints its elements separated by commas.\<close>

fun js_string :: "body_value \<Rightarrow> string" where
  "js_string (Text t) = t"
| "js_string (Other t) = t"
| "js_string (Items vs) = join (map js_string vs)"

text \<open>
  \<open>toString(value)\<close> of express-validator 6: a non-empty array stands for its first
  element, printed as \<open>String\<close> prints it.
\<close>

definition toString :: "body_value \<Rightarrow> string" where
  "toString v = (case v of Items (x # xs) \<Rightarrow> js_string x | _ \<Rightarrow> js_string v)"

text \<open>
  \<open>body('type').isIn(['upvote', 'downvote'])\<close> (\<open>questions.js\<close> 466,
  \<open>answers.js\<close> 418): express-validator 6 runs a validator on each element of an array
  value, and on the value itself otherwise; the result is the list of values in error.
\<close>

definition type_errors :: "body_value \<Rightarrow> body_value list" where
  "type_errors v =
     filter (\<lambda>x. toString x \<notin> set [''upvote'', ''downvote''])
       (case v of Items vs \<Rightarrow> vs | _ \<Rightarrow> [v])"

record request =
  token :: token
  params_id :: "object_id option"
  body_type :: body_value

record response =
  status :: nat
  success :: bool
  message :: string
  body_votes :: "int option"

definition reply :: "nat \<Rightarrow> bool \<Rightarrow> string \<Rightarrow> response" where
  "reply code ok msg = \<lparr>status = code, success = ok, message = msg, body_votes = None\<rparr>"

text \<open>\<open>authenticate\<close> (\<open>src/server/middleware/auth.js\<close> 5-48): the user the token names, or the
  response that ends the request.\<close>

definition authenticate :: "db \<Rightarrow> token \<Rightarrow> response + object_id" where
  "authenticate s tok =
     (case tok of
        NoToken \<Rightarrow> Inl (reply 401 False ''Access denied. No token provided.'')
      | InvalidToken \<Rightarrow> Inl (reply 401 False ''Invalid token.'')
      | ExpiredToken \<Rightarrow> Inl (reply 401 False ''Token expired.'')
      | Token userId \<Rightarrow>
          (case users s userId of
             None \<Rightarrow> Inl (reply 401 False ''Invalid token. User not found.'')
           | Some u \<Rightarrow> Inr userId))"

text \<open>
  An endpoint returns its response and the states of the store after each write it has
  awaited, in order; a request that writes nothing returns the empty list. Each \<open>Date\<close>
  taken while the request is handled is \<open>now\<close>.

  \<open>populate('author')\<close> replaces the author's id by the author's document, or by
  \<open>null\<close> when there is no such user; reading \<open>author._id\<close> of \<open>null\<close> throws, and the
  \<open>catch\<close> block answers 500. So it does when \<open>save()\<close> rejects: the error is not a
  \<open>CastError\<close>, and what was to follow the save is not done.

  \<open>type === 'upvote'\<close> holds for the string \<open>upvote\<close> only: every other body that passes
  the validation, the string \<open>downvote\<close> or an array, takes the \<open>else\<close> branch.
\<close>

text \<open>\<open>POST /api/questions/:id/vote\<close> (\<open>src/server/routes/questions.js\<close> 465-536).\<close>

definition vote_question :: "db \<Rightarrow> date \<Rightarrow> request \<Rightarrow> response \<times> db list" where
  "vote_question s now req =
     (case authenticate s (token req) of
        Inl r \<Rightarrow> (r, [])
      | Inr userId \<Rightarrow>
          if type_errors (body_type req) \<noteq> []
          then (reply 400 False ''Validation failed'', [])
          else
            (case params_id req of
               None \<Rightarrow> (reply 404 False ''Question not found'', [])
             | Some qid \<Rightarrow>
                 (case questions s qid of
                    None \<Rightarrow> (reply 404 False ''Question not found'', [])
                  | Some q \<Rightarrow>
                      (case users s (author q) of
                         None \<Rightarrow> (reply 500 False ''Server error while voting'', [])
                       | Some authorDoc \<Rightarrow>
                           if author q = userId
                           then (reply 400 False ''You cannot vote on your own question'', [])
                           else if body_type req = Text ''upvote''
                           then
                             (let q' = addUpvote now userId q
                              in case save_question qid q q' s of
                                   Inl e \<Rightarrow> (reply 500 False ''Server error while voting'', [])
                                 | Inr s1 \<Rightarrow>
                                     (let s2 = notifyUpvote (author q) userId qid None ''question'' s1;
                                          s3 = save_user (author q) authorDoc
                                                 (updateReputation 5 authorDoc) s2
                                      in ((reply 200 True
                                             (js_string (body_type req) @ '' recorded successfully''))
                                            \<lparr>body_votes := Some (votes q')\<rparr>,
                                          [s1, s2, s3])))
                           else
                             (let q' = addDownvote now userId q
                              in case save_question qid q q' s of
                                   Inl e \<Rightarrow> (reply 500 False ''Server error while voting'', [])
                                 | Inr s1 \<Rightarrow>
                                     (let s2 = save_user (author q) authorDoc
                                                 (updateReputation (- 2) authorDoc) s1
                                      in ((reply 200 True
                                             (js_string (body_type req) @ '' recorded successfully''))
                                            \<lparr>body_votes := Some (votes q')\<rparr>,
                                          [s1, s2])))))))"

text \<open>\<open>POST /api/answers/:id/vote\<close> (\<open>src/server/routes/answers.js\<close> 417-488).\<close>

definition vote_answer :: "db \<Rightarrow> date \<Rightarrow> request \<Rightarrow> response \<times> db list" where
  "vote_answer s now req =
     (case authenticate s (token req) of
        Inl r \<Rightarrow> (r, [])
      | Inr userId \<Rightarrow>
          if type_errors (body_type req) \<noteq> []
          then (reply 400 False ''Validation failed'', [])
          else
            (case params_id req of
               None \<Rightarrow> (reply 404 False ''Answer not found'', [])
             | Some aid \<Rightarrow>
                 (case answers s aid of
                    None \<Rightarrow> (reply 404 False ''Answer not found'', [])
                  | Some a \<Rightarrow>
                      if isDeleted a then (reply 404 False ''Answer not found'', [])
                      else
                        (case users s (author a) of
                           None \<Rightarrow> (reply 500 False ''Server error while voting'', [])
                         | Some authorDoc \<Rightarrow>
                             if author a = userId
                             then (reply 400 False ''You cannot vote on your own answer'', [])
                             else if body_type req = Text ''upvote''
                             then
                               (let a' = addUpvote now userId a;
                                    s1 = save_answer aid a a' s;
                                    s2 = notifyUpvote (author a) userId aid (Some (question a)) ''answer'' s1;
                                    s3 = save_user (author a) authorDoc (updateReputation 10 authorDoc) s2
                                in ((reply 200 True
                                       (js_string (body_type req) @ '' recorded successfully''))
                                      \<lparr>body_votes := Some (votes a')\<rparr>,
                                    [s1, s2, s3]))
                             else
                               (let a' = addDownvote now userId a;
                                    s1 = save_answer aid a a' s;
                                    s2 = save_user (author a) authorDoc (updateReputation (- 2) authorDoc) s1
                                in ((reply 200 True
                                       (js_string (body_type req) @ '' recorded successfully''))
                                      \<lparr>body_votes := Some (votes a')\<rparr>,
                                    [s1, s2]))))))"

text \<open>
  \<open>POST /api/answers/:id/accept\<close> (\<open>src/server/routes/answers.js\<close> 493-566). The answer is loaded
  with its author populated before anything is written. The stored flag of the answer the
  question points at is cleared (523-526) and the answer is saved as accepted (530) before
  \<open>question.save()\<close> (534) validates the question; when that rejects, the two writes stand,
  the pointer is not moved and the request is answered 500. The author's document is first
  read at line 537, after the three writes.
\<close>

definition accept_answer :: "db \<Rightarrow> date \<Rightarrow> request \<Rightarrow> response \<times> db list" where
  "accept_answer s now req =
     (case authenticate s (token req) of
        Inl r \<Rightarrow> (r, [])
      | Inr userId \<Rightarrow>
          (case params_id req of
             None \<Rightarrow> (reply 404 False ''Answer not found'', [])
           | Some aid \<Rightarrow>
               (case answers s aid of
                  None \<Rightarrow> (reply 404 False ''Answer not found'', [])
                | Some a \<Rightarrow>
                    if isDeleted a then (reply 404 False ''Answer not found'', [])
                    else
                      (case questions s (question a) of
                         None \<Rightarrow> (reply 404 False ''Question not found'', [])
                       | Some q \<Rightarrow>
                           if author q \<noteq> userId
                           then (reply 403 False ''Only the question author can accept answers'', [])
                           else
                             (let s1 = (case acceptedAnswer q of
                                          None \<Rightarrow> s
                                        | Some old \<Rightarrow>
                                            Answer_findByIdAndUpdate old
                                              (\<lambda>d. d\<lparr>isAccepted := False, acceptedAt := None\<rparr>) s);
                                  s2 = save_answer aid a (accept now a) s1
                              in case save_question (question a) q
                                        (pre_save (q\<lparr>acceptedAnswer := Some aid\<rparr>)) s2 of
                                   Inl e \<Rightarrow>
                                     (reply 500 False ''Server error while accepting answer'',
                                      [s1, s2])
                                 | Inr s3 \<Rightarrow>
                                     (case users s (author a) of
                                        None \<Rightarrow>
                                          (reply 500 False ''Server error while accepting answer'',
                                           [s1, s2, s3])
                                      | Some authorDoc \<Rightarrow>
                                          (let s4 = (if author a \<noteq> userId
                                                     then notifyAcceptedAnswer (author a) userId aid
                                                            (question a) s3
                                                     else s3);
                                               s5 = save_user (author a) authorDoc
                                                      (updateReputation 15 authorDoc) s4
                                           in (reply 200 True ''Answer accepted successfully'',
                                               [s1, s2, s3, s4, s5]))))))))"

text \<open>The store when the request has been handled.\<close>

definition final :: "db \<Rightarrow> response \<times> db list \<Rightarrow> db" where
  "final s out = last (s # snd out)"

section \<open>Specification predicates on the store\<close>

text \<open>An answer of question \<open>qid\<close> that the store holds as accepted.\<close>

definition marked_accepted :: "db \<Rightarrow> object_id \<Rightarrow> object_id \<Rightarrow> bool" where
  "marked_accepted s qid aid =
     (case answers s aid of None \<Rightarrow> False | Some a \<Rightarrow> question a = qid \<and> isAccepted a)"

text \<open>The accepted-answer pointer of question \<open>qid\<close> names an answer that is not held
  as an accepted answer of that question.\<close>

definition points_at_unaccepted :: "db \<Rightarrow> object_id \<Rightarrow> bool" where
  "points_at_unaccepted s qid =
     (case questions s qid of
        None \<Rightarrow> False
      | Some q \<Rightarrow> (case acceptedAnswer q of None \<Rightarrow> False | Some aid \<Rightarrow> \<not> marked_accepted s qid aid))"

section \<open>Sample data\<close>

text \<open>
  A question and an answer as they are created, with the defaults of their schemas: no votes,
  tally 0, not accepted, not closed, no reason for closing (\<open>null\<close>), not deleted.
\<close>

definition new_question :: "object_id \<Rightarrow> question" where
  "new_question authorId =
     \<lparr>author = authorId, votes = 0, upvotes = [], downvotes = [],
      acceptedAnswer = None, isClosed = False, closedReason = None\<rparr>"

text \<open>
  A question that \<open>save()\<close> accepts: its \<open>closedReason\<close> has been given a value of the
  enumeration. No route of the sources does that; such a question has got it elsewhere.
\<close>

definition reasoned_question :: "object_id \<Rightarrow> question" where
  "reasoned_question authorId = (new_question authorId)\<lparr>closedReason := Some ''duplicate''\<rparr>"

definition new_answer :: "object_id \<Rightarrow> object_id \<Rightarrow> answer" where
  "new_answer authorId questionId =
     \<lparr>author = authorId, votes = 0, upvotes = [], downvotes = [],
      question = questionId, isAccepted = False, acceptedAt = None, isDeleted = False\<rparr>"

text \<open>
  A store with users 1, 2 and 3, question 10 asked by user 1, as the schema creates it, and
  its answers 20 (by user 2) and 21 (by user 3).
\<close>

definition sample_db :: db where
  "sample_db =
     \<lparr>questions = [10 \<mapsto> new_question 1],
      answers = [20 \<mapsto> new_answer 2 10, 21 \<mapsto> new_answer 3 10],
      users = [1 \<mapsto> \<lparr>reputation = 0\<rparr>, 2 \<mapsto> \<lparr>reputation = 0\<rparr>, 3 \<mapsto> \<lparr>reputation = 0\<rparr>],
      notifications = []\<rparr>"

text \<open>A new question of user 1 after user 7 has downvoted it, and after user 7 has upvoted it.\<close>

definition downvoted_question :: question where
  "downvoted_question = addDownvote 1 7 (new_question 1)"

definition upvoted_question :: question where
  "upvoted_question = addUpvote 1 7 (new_question 1)"

text \<open>The same store with question 10 holding a reason, so that it can be saved.\<close>

definition reasoned_db :: db where
  "reasoned_db = sample_db\<lparr>questions := (questions sample_db)(10 \<mapsto> reasoned_question 1)\<rparr>"

definition vote_request :: "object_id \<Rightarrow> object_id \<Rightarrow> string \<Rightarrow> request" where
  "vote_request userId contentId direction =
     \<lparr>token = Token userId, params_id = Some contentId, body_type = Text direction\<rparr>"

definition accept_request :: "object_id \<Rightarrow> object_id \<Rightarrow> request" where
  "accept_request userId answerId =
     \<lparr>token = Token userId, params_id = Some answerId, body_type = Other []\<rparr>"

text \<open>The sample store with answer 20 soft-deleted, and with question 10 closed as a
  duplicate.\<close>

definition deleted_db :: db where
  "deleted_db = sample_db\<lparr>answers := (answers sample_db)(20 \<mapsto> (new_answer 2 10)\<lparr>isDeleted := True\<rparr>)\<rparr>"

definition closed_db :: db where
  "closed_db = sample_db\<lparr>questions := (questions sample_db)(10 \<mapsto> (reasoned_question 1)\<lparr>isClosed := True\<rparr>)\<rparr>"

text \<open>The store \<open>reasoned_db\<close> after user 1, who asked question 10, has accepted answer
  20 at time 1.\<close>

definition accepted_db :: db where
  "accepted_db = final reasoned_db (accept_answer reasoned_db 1 (accept_request 1 20))"

section \<open>Saving a document that was just loaded\<close>

text \<open>
  An endpoint saves a document it has just loaded. Where the store still holds the document
  as it was loaded, saving writes the document as it is now.
\<close>

lemma write_path_loaded: "write_path l c l = c"
  by (simp add: write_path_def)

lemma question_all_paths:
  "q\<lparr>author := author q', votes := votes q', upvotes := upvotes q', downvotes := downvotes q',
     acceptedAnswer := acceptedAnswer q', isClosed := isClosed q',
     closedReason := closedReason q'\<rparr> = (q' :: question)"
  by (cases q, cases q') simp

lemma answer_all_paths:
  "a\<lparr>author := author a', votes := votes a', upvotes := upvotes a', downvotes := downvotes a',
     question := question a', isAccepted := isAccepted a', acceptedAt := acceptedAt a',
     isDeleted := isDeleted a'\<rparr> = (a' :: answer)"
  by (cases a, cases a') simp

lemma user_all_paths: "d\<lparr>reputation := reputation d'\<rparr> = (d' :: user_doc)"
  by (cases d, cases d') simp

lemma save_question_loaded:
  "questions s qid = Some q \<Longrightarrow> validate_question q' \<Longrightarrow>
   save_question qid q q' s = Inr (s\<lparr>questions := (questions s)(qid \<mapsto> q')\<rparr>)"
  by (simp add: save_question_def save_content_def write_path_loaded question_all_paths)

lemma save_question_rejected:
  "\<not> validate_question q' \<Longrightarrow> save_question qid q q' s = Inl ValidationError"
  by (simp add: save_question_def)

text \<open>The endpoints do not change \<open>closedReason\<close>: what they save passes validation
  exactly when what they loaded does.\<close>

lemma validate_question_addUpvote: "validate_question (addUpvote now u q) = validate_question q"
  by (simp add: validate_question_def addUpvote_def pre_save_def Let_def)

lemma validate_question_addDownvote: "validate_question (addDownvote now u q) = validate_question q"
  by (simp add: validate_question_def addDownvote_def pre_save_def Let_def)

lemma validate_question_pointer:
  "validate_question (pre_save (q\<lparr>acceptedAnswer := x\<rparr>)) = validate_question q"
  by (simp add: validate_question_def pre_save_def)

lemma save_answer_loaded:
  "answers s aid = Some a \<Longrightarrow> save_answer aid a a' s = s\<lparr>answers := (answers s)(aid \<mapsto> a')\<rparr>"
  by (simp add: save_answer_def save_content_def write_path_loaded answer_all_paths)

lemma save_user_loaded:
  "users s uid = Some d \<Longrightarrow> save_user uid d d' s = s\<lparr>users := (users s)(uid \<mapsto> d')\<rparr>"
  by (simp add: save_user_def write_path_loaded user_all_paths)

section \<open>Properties of the vote methods\<close>

lemma find_user_None: "(find (\<lambda>v. user v = u) xs = None) = (u \<notin> user ` set xs)"
  by (auto simp: find_None_iff)

lemma find_user_Some: "(\<exists>y. find (\<lambda>v. user v = u) xs = Some y) = (u \<in> user ` set xs)"
  using find_user_None [of u xs] by auto

lemma upvotes_addUpvote:
  "upvotes (addUpvote now u c) =
     (if u \<in> upvoters c then filter (\<lambda>v. user v \<noteq> u) (upvotes c)
      else upvotes c @ [\<lparr>user = u, createdAt = now\<rparr>])"
  by (simp add: addUpvote_def pre_save_def Let_def upvoters_def find_user_None find_user_Some)

lemma downvotes_addUpvote:
  "downvotes (addUpvote now u c) = filter (\<lambda>v. user v \<noteq> u) (downvotes c)"
  by (simp add: addUpvote_def pre_save_def Let_def)

lemma upvotes_addDownvote:
  "upvotes (addDownvote now u c) = filter (\<lambda>v. user v \<noteq> u) (upvotes c)"
  by (simp add: addDownvote_def pre_save_def Let_def)

lemma downvotes_addDownvote:
  "downvotes (addDownvote now u c) =
     (if u \<in> downvoters c then filter (\<lambda>v. user v \<noteq> u) (downvotes c)
      else downvotes c @ [\<lparr>user = u, createdAt = now\<rparr>])"
  by (simp add: addDownvote_def pre_save_def Let_def downvoters_def find_user_None find_user_Some)

lemma upvoters_addUpvote:
  "upvoters (addUpvote now u c) = (if u \<in> upvoters c then upvoters c - {u} else insert u (upvoters c))"
  by (auto simp: upvoters_def [of "addUpvote now u c"] upvotes_addUpvote) (auto simp: upvoters_def)

lemma downvoters_addUpvote: "downvoters (addUpvote now u c) = downvoters c - {u}"
  by (auto simp: downvoters_def downvotes_addUpvote)

lemma upvoters_addDownvote: "upvoters (addDownvote now u c) = upvoters c - {u}"
  by (auto simp: upvoters_def upvotes_addDownvote)

lemma downvoters_addDownvote:
  "downvoters (addDownvote now u c) =
     (if u \<in> downvoters c then downvoters c - {u} else insert u (downvoters c))"
  by (auto simp: downvoters_def [of "addDownvote now u c"] downvotes_addDownvote)
     (auto simp: downvoters_def)

lemma I1_apply_call: "I1 c \<Longrightarrow> I1 (apply_call c call)"
  by (cases call)
     (auto simp: I1_def upvoters_addUpvote downvoters_addUpvote
                 upvoters_addDownvote downvoters_addDownvote)

lemma I2_addUpvote: "I2 (addUpvote now u c)"
  by (simp add: I2_def addUpvote_def pre_save_def Let_def)

lemma I2_addDownvote: "I2 (addDownvote now u c)"
  by (simp add: I2_def addDownvote_def pre_save_def Let_def)

lemma ledger_distinct_addUpvote: "ledger_distinct c \<Longrightarrow> ledger_distinct (addUpvote now u c)"
  by (auto simp: ledger_distinct_def upvotes_addUpvote downvotes_addUpvote upvoters_def
                 distinct_map_filter)

lemma ledger_distinct_addDownvote: "ledger_distinct c \<Longrightarrow> ledger_distinct (addDownvote now u c)"
  by (auto simp: ledger_distinct_def upvotes_addDownvote downvotes_addDownvote downvoters_def
                 distinct_map_filter)

lemma card_users: "distinct (map user xs) \<Longrightarrow> card (user ` set xs) = length xs"
  using distinct_card [of "map user xs"] by simp

lemma I2_card:
  "ledger_distinct c \<Longrightarrow> I2 c = (votes c = int (card (upvoters c)) - int (card (downvoters c)))"
  by (simp add: ledger_distinct_def I2_def upvoters_def downvoters_def card_users)

text \<open>
  The two properties of a well-formed ledger that the amended claims below assume, a
  consistent tally and arrays without a repeated user, hold for a newly created document and
  are kept by every sequence of calls.
\<close>

lemma ledger_distinct_run_calls: "ledger_distinct c \<Longrightarrow> ledger_distinct (run_calls calls c)"
proof (induction calls arbitrary: c)
  case Nil
  then show ?case by (simp add: run_calls_def)
next
  case (Cons call calls)
  have "ledger_distinct (apply_call c call)"
    using Cons.prems by (cases call) (simp_all add: ledger_distinct_addUpvote ledger_distinct_addDownvote)
  then show ?case
    using Cons.IH [of "apply_call c call"] by (simp add: run_calls_def)
qed

lemma I2_run_calls: "I2 c \<Longrightarrow> I2 (run_calls calls c)"
proof (induction calls arbitrary: c)
  case Nil
  then show ?case by (simp add: run_calls_def)
next
  case (Cons call calls)
  have "I2 (apply_call c call)"
    by (cases call) (simp_all add: I2_addUpvote I2_addDownvote)
  then show ?case
    using Cons.IH [of "apply_call c call"] by (simp add: run_calls_def)
qed

lemma new_question_well_formed:
  "I1 (new_question a) \<and> I2 (new_question a) \<and> ledger_distinct (new_question a)"
  by (simp add: I1_def I2_def ledger_distinct_def upvoters_def downvoters_def new_question_def)

lemma new_answer_well_formed:
  "I1 (new_answer a q) \<and> I2 (new_answer a q) \<and> ledger_distinct (new_answer a q)"
  by (simp add: I1_def I2_def ledger_distinct_def upvoters_def downvoters_def new_answer_def)

text \<open>
  C1. Whatever sequence of \<open>addUpvote\<close> and \<open>addDownvote\<close> calls is made on a question
  or an answer in which no user is in both vote arrays (as in any newly created one, whose
  arrays are empty), no user is in both of them afterwards. A prefix of a sequence of calls
  is a sequence of calls, so this holds after every call of the sequence.
\<close>

theorem vote_mutual_exclusion: "I1 c \<Longrightarrow> I1 (run_calls calls c)"
  unfolding run_calls_def
  by (induction calls arbitrary: c) (simp_all add: I1_apply_call)

theorem vote_mutual_exclusion_witness:
  "I1 (new_question 1) \<and>
   I1 (run_calls [AddUpvote 1 7, AddDownvote 2 7, AddUpvote 3 8, AddUpvote 4 8] (new_question 1))"
proof -
  have h: "I1 (new_question 1)"
    by (simp add: I1_def upvoters_def downvoters_def new_question_def)
  show ?thesis
    using h vote_mutual_exclusion [OF h, of "[AddUpvote 1 7, AddDownvote 2 7, AddUpvote 3 8, AddUpvote 4 8]"]
    by simp
qed

text \<open>
  C2. The document that \<open>addUpvote\<close> or \<open>addDownvote\<close> hands to the store has a tally
  equal to the number of its upvote entries minus the number of its downvote entries,
  whatever the document was before the call. Where each array of the document held a user at
  most once before the call, that is the number of upvoters minus the number of downvoters.
  The vote endpoints call the method on the question or answer they have just loaded, and
  this document with its consistent tally is what the store then holds; when \<open>save()\<close>
  rejects a question, which it does exactly when the question fails validation, nothing is
  committed.
\<close>

theorem vote_tally_consistent:
  "I2 (addUpvote now u c) \<and> I2 (addDownvote now u c) \<and>
   (ledger_distinct c \<longrightarrow>
      votes (addUpvote now u c) =
        int (card (upvoters (addUpvote now u c))) - int (card (downvoters (addUpvote now u c))) \<and>
      votes (addDownvote now u c) =
        int (card (upvoters (addDownvote now u c))) - int (card (downvoters (addDownvote now u c)))) \<and>
   (questions s qid = Some q \<longrightarrow>
      (case save_question qid q (addUpvote now u q) s of
         Inl e \<Rightarrow> \<not> validate_question q
       | Inr s' \<Rightarrow> validate_question q \<and> map_option I2 (questions s' qid) = Some True) \<and>
      (case save_question qid q (addDownvote now u q) s of
         Inl e \<Rightarrow> \<not> validate_question q
       | Inr s' \<Rightarrow> validate_question q \<and> map_option I2 (questions s' qid) = Some True)) \<and>
   (answers s aid = Some a \<longrightarrow>
      map_option I2 (answers (save_answer aid a (addUpvote now u a) s) aid) = Some True \<and>
      map_option I2 (answers (save_answer aid a (addDownvote now u a) s) aid) = Some True)"
proof -
  have "questions s qid = Some q \<longrightarrow>
      (case save_question qid q (addUpvote now u q) s of
         Inl e \<Rightarrow> \<not> validate_question q
       | Inr s' \<Rightarrow> validate_question q \<and> map_option I2 (questions s' qid) = Some True) \<and>
      (case save_question qid q (addDownvote now u q) s of
         Inl e \<Rightarrow> \<not> validate_question q
       | Inr s' \<Rightarrow> validate_question q \<and> map_option I2 (questions s' qid) = Some True)"
    by (cases "validate_question q")
       (simp_all add: save_question_loaded save_question_rejected validate_question_addUpvote
          validate_question_addDownvote I2_addUpvote I2_addDownvote)
  moreover have "answers s aid = Some a \<longrightarrow>
      map_option I2 (answers (save_answer aid a (addUpvote now u a) s) aid) = Some True \<and>
      map_option I2 (answers (save_answer aid a (addDownvote now u a) s) aid) = Some True"
    by (simp add: save_answer_loaded I2_addUpvote I2_addDownvote)
  ultimately show ?thesis
    using I2_card [OF ledger_distinct_addUpvote, of c now u]
          I2_card [OF ledger_distinct_addDownvote, of c now u]
          I2_addUpvote [of now u c] I2_addDownvote [of now u c]
    by simp
qed

theorem vote_tally_consistent_witness:
  "ledger_distinct (new_question 1) \<and>
   votes (addUpvote 5 7 (new_question 1)) =
     int (card (upvoters (addUpvote 5 7 (new_question 1)))) -
     int (card (downvoters (addUpvote 5 7 (new_question 1)))) \<and>
   votes (addDownvote 5 7 (new_question 1)) =
     int (card (upvoters (addDownvote 5 7 (new_question 1)))) -
     int (card (downvoters (addDownvote 5 7 (new_question 1)))) \<and>
   questions reasoned_db 10 = Some (reasoned_question 1) \<and>
   (case save_question 10 (reasoned_question 1) (addUpvote 5 7 (reasoned_question 1)) reasoned_db of
      Inl e \<Rightarrow> False
    | Inr s' \<Rightarrow> map_option I2 (questions s' 10) = Some True) \<and>
   answers reasoned_db 20 = Some (new_answer 2 10) \<and>
   map_option I2 (answers (save_answer 20 (new_answer 2 10) (addDownvote 5 7 (new_answer 2 10)) reasoned_db) 20)
     = Some True"
proof -
  have h: "ledger_distinct (new_question 1)"
    by (simp add: ledger_distinct_def new_question_def)
  have hq: "questions reasoned_db 10 = Some (reasoned_question 1)"
    and ha: "answers reasoned_db 20 = Some (new_answer 2 10)"
    by (simp_all add: reasoned_db_def sample_db_def)
  have hv: "validate_question (reasoned_question 1)"
    by (simp add: validate_question_def reasoned_question_def closedReason_enum_def)
  show ?thesis
    using h hq ha hv
      vote_tally_consistent [of 5 7 "new_question 1" reasoned_db 10 "reasoned_question 1" 20
        "new_answer 2 10"]
    by (auto split: sum.splits)
qed

section \<open>Properties of the endpoints\<close>

lemma createNotification_fields:
  "users (createNotification n s) = users s"
  "questions (createNotification n s) = questions s"
  "answers (createNotification n s) = answers s"
  by (simp_all add: createNotification_def)

text \<open>The string \<open>upvote\<close>, the string \<open>downvote\<close> and arrays of them pass the
  validation of the \<open>type\<close> field.\<close>

lemma type_errors_Text: "(type_errors (Text t) = []) = (t = ''upvote'' \<or> t = ''downvote'')"
  by (simp add: type_errors_def toString_def)

lemma type_errors_Items_upvote: "type_errors (Items [Text ''upvote'']) = []"
  by (simp add: type_errors_def toString_def)

lemma vote_question_accepted:
  assumes "token req = Token voter" and "users s voter \<noteq> None"
    and "type_errors (body_type req) = []" and "params_id req = Some qid"
    and "questions s qid = Some q" and "users s (author q) = Some authorDoc"
    and "author q \<noteq> voter" and "validate_question q"
  shows "status (fst (vote_question s now req)) = 200"
    and "questions (final s (vote_question s now req)) =
           (questions s)(qid \<mapsto> (if body_type req = Text ''upvote'' then addUpvote now voter q
                                  else addDownvote now voter q))"
    and "users (final s (vote_question s now req)) =
           (users s)(author q \<mapsto>
              updateReputation (if body_type req = Text ''upvote'' then 5 else - 2) authorDoc)"
    and "answers (final s (vote_question s now req)) = answers s"
  using assms
  by (auto simp: vote_question_def authenticate_def final_def Let_def reply_def
      save_question_loaded save_user_loaded notifyUpvote_def createNotification_fields
      validate_question_addUpvote validate_question_addDownvote)

lemma vote_question_unsaved:
  assumes "token req = Token voter" and "users s voter \<noteq> None"
    and "type_errors (body_type req) = []" and "params_id req = Some qid"
    and "questions s qid = Some q" and "users s (author q) = Some authorDoc"
    and "author q \<noteq> voter" and "\<not> validate_question q"
  shows "vote_question s now req = (reply 500 False ''Server error while voting'', [])"
  using assms
  by (auto simp: vote_question_def authenticate_def Let_def save_question_rejected
      validate_question_addUpvote validate_question_addDownvote)


text \<open>
  An array body passes the validation but is not the string \<open>upvote\<close>: the array
  \<open>["upvote"]\<close> is handled as a downvote, with -2 for the author.
\<close>

lemma vote_array_type_is_downvote:
  "status (fst (vote_question reasoned_db 5
      \<lparr>token = Token 3, params_id = Some 10, body_type = Items [Text ''upvote'']\<rparr>)) = 200 \<and>
   users (final reasoned_db (vote_question reasoned_db 5
      \<lparr>token = Token 3, params_id = Some 10, body_type = Items [Text ''upvote'']\<rparr>)) 1 =
     Some \<lparr>reputation = - 2\<rparr> \<and>
   map_option downvoters (questions (final reasoned_db (vote_question reasoned_db 5
      \<lparr>token = Token 3, params_id = Some 10, body_type = Items [Text ''upvote'']\<rparr>)) 10) =
     Some {3}"
proof -
  let ?req = "\<lparr>token = Token 3, params_id = Some 10, body_type = Items [Text ''upvote'']\<rparr>"
  have v: "validate_question (reasoned_question 1)"
    by (simp add: validate_question_def reasoned_question_def closedReason_enum_def)
  have h: "token ?req = Token 3" "users reasoned_db 3 \<noteq> None"
    "type_errors (body_type ?req) = []" "params_id ?req = Some 10"
    "questions reasoned_db 10 = Some (reasoned_question 1)"
    "users reasoned_db (author (reasoned_question 1)) = Some \<lparr>reputation = 0\<rparr>"
    "author (reasoned_question 1) \<noteq> 3"
    by (simp_all add: reasoned_db_def sample_db_def reasoned_question_def new_question_def
        type_errors_Items_upvote)
  note c = vote_question_accepted [OF h v, of 5]
  show ?thesis
    using c
    by (simp add: updateReputation_def reasoned_question_def new_question_def
        downvotes_addDownvote downvoters_def)
qed




section \<open>Voting twice\<close>

lemma filter_absent: "u \<notin> user ` set xs \<Longrightarrow> filter (\<lambda>v. user v \<noteq> u) xs = xs"
  by (induction xs) auto

lemma length_filter_once:
  "distinct (map user xs) \<Longrightarrow> u \<in> user ` set xs \<Longrightarrow>
   Suc (length (filter (\<lambda>v. user v \<noteq> u) xs)) = length xs"
  by (induction xs) (auto simp: filter_absent)

text \<open>
  C4, as stated, fails: user 7, who is not the author, has downvoted the question. The first
  \<open>addUpvote\<close> removes the downvote and records an upvote, the second removes the upvote;
  the downvote is not put back, and the tally ends at 0 instead of -1.
\<close>

theorem double_upvote_after_downvote_counterexample:
  "7 \<noteq> author downvoted_question \<and>
   \<not> (upvoters (addUpvote 3 7 (addUpvote 2 7 downvoted_question)) = upvoters downvoted_question \<and>
      downvoters (addUpvote 3 7 (addUpvote 2 7 downvoted_question)) = downvoters downvoted_question \<and>
      votes (addUpvote 3 7 (addUpvote 2 7 downvoted_question)) = votes downvoted_question)"
  by (simp add: downvoted_question_def new_question_def addUpvote_def addDownvote_def
      pre_save_def Let_def downvoters_def)

text \<open>
  C4, amended. For every user \<open>u\<close> (the author or not) who has no downvote on a content
  item whose upvote array holds each user at most once and whose tally is consistent
  (I2), two calls of \<open>addUpvote\<close> in succession leave the upvoters, the downvoters and the
  tally as they were before the first call.
\<close>

theorem double_upvote_restores:
  assumes "u \<notin> downvoters c" and "distinct (map user (upvotes c))" and "I2 c"
  shows "upvoters (addUpvote now' u (addUpvote now u c)) = upvoters c \<and>
         downvoters (addUpvote now' u (addUpvote now u c)) = downvoters c \<and>
         votes (addUpvote now' u (addUpvote now u c)) = votes c"
proof -
  let ?c1 = "addUpvote now u c"
  let ?c2 = "addUpvote now' u ?c1"
  have down: "downvotes ?c2 = downvotes c"
    using assms(1) by (simp add: downvotes_addUpvote downvoters_def filter_absent)
  have len: "length (upvotes ?c2) = length (upvotes c)"
  proof (cases "u \<in> upvoters c")
    case True
    then have "u \<notin> upvoters ?c1" by (simp add: upvoters_addUpvote)
    then have "upvotes ?c2 = filter (\<lambda>v. user v \<noteq> u) (upvotes c) @ [\<lparr>user = u, createdAt = now'\<rparr>]"
      using True by (simp add: upvotes_addUpvote)
    then show ?thesis
      using length_filter_once [OF assms(2), of u] True by (simp add: upvoters_def)
  next
    case False
    then have "u \<in> upvoters ?c1" by (simp add: upvoters_addUpvote)
    then have "upvotes ?c2 = filter (\<lambda>v. user v \<noteq> u) (upvotes c @ [\<lparr>user = u, createdAt = now\<rparr>])"
      using False by (simp add: upvotes_addUpvote)
    then show ?thesis
      using False by (simp add: upvoters_def filter_absent)
  qed
  have "votes ?c2 = int (length (upvotes ?c2)) - int (length (downvotes ?c2))"
    using I2_addUpvote [of now' u ?c1] by (simp add: I2_def)
  then have "votes ?c2 = votes c"
    using assms(3) down len by (simp add: I2_def)
  moreover have "upvoters ?c2 = upvoters c"
    by (auto simp: upvoters_addUpvote)
  moreover have "downvoters ?c2 = downvoters c"
    using down by (simp add: downvoters_def)
  ultimately show ?thesis by simp
qed

theorem double_upvote_restores_witness:
  "7 \<notin> downvoters upvoted_question \<and> distinct (map user (upvotes upvoted_question)) \<and>
   I2 upvoted_question \<and>
   upvoters (addUpvote 3 7 (addUpvote 2 7 upvoted_question)) = upvoters upvoted_question \<and>
   downvoters (addUpvote 3 7 (addUpvote 2 7 upvoted_question)) = downvoters upvoted_question \<and>
   votes (addUpvote 3 7 (addUpvote 2 7 upvoted_question)) = votes upvoted_question"
proof -
  have h1: "7 \<notin> downvoters upvoted_question"
    by (simp add: upvoted_question_def downvoters_addUpvote)
  have h2: "distinct (map user (upvotes upvoted_question))"
    by (simp add: upvoted_question_def upvotes_addUpvote upvoters_def new_question_def)
  have h3: "I2 upvoted_question"
    by (simp add: upvoted_question_def I2_addUpvote)
  show ?thesis
    using h1 h2 h3 double_upvote_restores [OF h1 h2 h3, of 3 2] by simp
qed

text \<open>
  C5, as stated, fails: user 7 has already upvoted the question (tally 1). \<open>addUpvote\<close>
  then removes that upvote and \<open>addDownvote\<close> records a downvote: the tally ends at -1,
  two below the tally before the calls.
\<close>

theorem upvote_then_downvote_after_upvote_counterexample:
  "\<not> (7 \<in> downvoters (addDownvote 3 7 (addUpvote 2 7 upvoted_question)) \<and>
      7 \<notin> upvoters (addDownvote 3 7 (addUpvote 2 7 upvoted_question)) \<and>
      votes (addDownvote 3 7 (addUpvote 2 7 upvoted_question)) = votes upvoted_question - 1)"
  by (simp add: upvoted_question_def new_question_def addUpvote_def addDownvote_def
      pre_save_def Let_def)

text \<open>
  C5, amended. For every user \<open>u\<close> and content item, after \<open>addUpvote\<close> and then
  \<open>addDownvote\<close> the user is among the downvoters and not among the upvoters. Where the
  user had no vote on the item before and the tally was consistent (I2), the tally ends one
  below the tally before the calls and two below the tally after the upvote.
\<close>

theorem upvote_then_downvote:
  "u \<in> downvoters (addDownvote now' u (addUpvote now u c)) \<and>
   u \<notin> upvoters (addDownvote now' u (addUpvote now u c)) \<and>
   (I2 c \<and> u \<notin> upvoters c \<and> u \<notin> downvoters c \<longrightarrow>
      votes (addDownvote now' u (addUpvote now u c)) = votes c - 1 \<and>
      votes (addDownvote now' u (addUpvote now u c)) = votes (addUpvote now u c) - 2)"
proof -
  let ?c1 = "addUpvote now u c"
  let ?c2 = "addDownvote now' u ?c1"
  have mem: "u \<in> downvoters ?c2 \<and> u \<notin> upvoters ?c2"
    by (simp add: downvoters_addDownvote upvoters_addDownvote downvoters_addUpvote)
  have "votes ?c2 = votes c - 1 \<and> votes ?c2 = votes ?c1 - 2"
    if "I2 c" and "u \<notin> upvoters c" and "u \<notin> downvoters c"
  proof -
    have up1: "upvotes ?c1 = upvotes c @ [\<lparr>user = u, createdAt = now\<rparr>]"
      using that(2) by (simp add: upvotes_addUpvote)
    have down1: "downvotes ?c1 = downvotes c"
      using that(3) by (simp add: downvotes_addUpvote downvoters_def filter_absent)
    have up2: "upvotes ?c2 = upvotes c"
      using that(2) by (simp add: upvotes_addDownvote up1 upvoters_def filter_absent)
    have "u \<notin> downvoters ?c1"
      by (simp add: downvoters_addUpvote)
    then have down2: "downvotes ?c2 = downvotes c @ [\<lparr>user = u, createdAt = now'\<rparr>]"
      by (simp add: downvotes_addDownvote down1)
    have "votes ?c1 = int (length (upvotes ?c1)) - int (length (downvotes ?c1))"
      using I2_addUpvote [of now u c] by (simp add: I2_def)
    moreover have "votes ?c2 = int (length (upvotes ?c2)) - int (length (downvotes ?c2))"
      using I2_addDownvote [of now' u ?c1] by (simp add: I2_def)
    ultimately show ?thesis
      using that(1) by (simp add: I2_def up1 down1 up2 down2)
  qed
  with mem show ?thesis by blast
qed

theorem upvote_then_downvote_witness:
  "I2 (new_question 1) \<and> 7 \<notin> upvoters (new_question 1) \<and> 7 \<notin> downvoters (new_question 1) \<and>
   7 \<in> downvoters (addDownvote 3 7 (addUpvote 2 7 (new_question 1))) \<and>
   7 \<notin> upvoters (addDownvote 3 7 (addUpvote 2 7 (new_question 1))) \<and>
   votes (addDownvote 3 7 (addUpvote 2 7 (new_question 1))) = votes (new_question 1) - 1 \<and>
   votes (addDownvote 3 7 (addUpvote 2 7 (new_question 1))) = votes (addUpvote 2 7 (new_question 1)) - 2"
proof -
  have h: "I2 (new_question 1) \<and> 7 \<notin> upvoters (new_question 1) \<and> 7 \<notin> downvoters (new_question 1)"
    by (simp add: I2_def upvoters_def downvoters_def new_question_def)
  show ?thesis
    using h upvote_then_downvote [of 7 3 2 "new_question 1"] by simp
qed

section \<open>Rejected requests\<close>

text \<open>
  C6, as stated, fails: answer 20 is soft-deleted and its author, user 2, votes on it. The
  endpoint answers 404 (\<open>src/server/routes/answers.js\<close> 433-438) before it compares the voter with the
  author, so the request does not fail as a self-vote.
\<close>

theorem self_vote_deleted_answer_counterexample:
  "map_option author (answers deleted_db 20) = Some 2 \<and>
   fst (vote_answer deleted_db 5 (vote_request 2 20 ''upvote'')) = reply 404 False ''Answer not found''"
  by (simp add: deleted_db_def sample_db_def new_answer_def vote_request_def vote_answer_def
      authenticate_def type_errors_Text)

text \<open>
  C6, amended. A vote request (valid token, a type that passes the validation) of the author of a
  question is answered 400 "You cannot vote on your own question"; one of the author of an
  answer is answered 400 "You cannot vote on your own answer", or 404 "Answer not found"
  when the answer is soft-deleted. Either way the endpoint writes nothing: vote arrays,
  tally and reputations are as before.
\<close>

theorem self_vote_rejected:
  "(token req = Token voter \<and> users s voter \<noteq> None \<and>
    type_errors (body_type req) = [] \<and> params_id req = Some qid \<and>
    questions s qid = Some q \<and> author q = voter
    \<longrightarrow> vote_question s now req = (reply 400 False ''You cannot vote on your own question'', []) \<and>
        final s (vote_question s now req) = s) \<and>
   (token req' = Token voter' \<and> users s voter' \<noteq> None \<and>
    type_errors (body_type req') = [] \<and> params_id req' = Some aid \<and>
    answers s aid = Some a \<and> author a = voter'
    \<longrightarrow> vote_answer s now req' =
          (if isDeleted a then reply 404 False ''Answer not found''
           else reply 400 False ''You cannot vote on your own answer'', []) \<and>
        final s (vote_answer s now req') = s)"
  by (auto simp: vote_question_def vote_answer_def authenticate_def final_def)

theorem self_vote_rejected_witness:
  "vote_question sample_db 5 (vote_request 1 10 ''upvote'') =
     (reply 400 False ''You cannot vote on your own question'', []) \<and>
   final sample_db (vote_question sample_db 5 (vote_request 1 10 ''upvote'')) = sample_db \<and>
   vote_answer sample_db 5 (vote_request 2 20 ''downvote'') =
     (reply 400 False ''You cannot vote on your own answer'', []) \<and>
   final sample_db (vote_answer sample_db 5 (vote_request 2 20 ''downvote'')) = sample_db"
proof -
  have h: "token (vote_request 1 10 ''upvote'') = Token 1 \<and> users sample_db 1 \<noteq> None \<and>
           type_errors (body_type (vote_request 1 10 ''upvote'')) = [] \<and>
           params_id (vote_request 1 10 ''upvote'') = Some 10 \<and>
           questions sample_db 10 = Some (new_question 1) \<and> author (new_question 1) = 1"
    by (simp add: sample_db_def vote_request_def new_question_def type_errors_Text)
  have h': "token (vote_request 2 20 ''downvote'') = Token 2 \<and> users sample_db 2 \<noteq> None \<and>
            type_errors (body_type (vote_request 2 20 ''downvote'')) = [] \<and>
            params_id (vote_request 2 20 ''downvote'') = Some 20 \<and>
            answers sample_db 20 = Some (new_answer 2 10) \<and> author (new_answer 2 10) = 2 \<and>
            \<not> isDeleted (new_answer 2 10)"
    by (simp add: sample_db_def vote_request_def new_answer_def type_errors_Text)
  show ?thesis
    using h h' self_vote_rejected [of "vote_request 1 10 ''upvote''" 1 sample_db 10 "new_question 1" 5
          "vote_request 2 20 ''downvote''" 2 20 "new_answer 2 10"]
    by (simp add: final_def)
qed

text \<open>
  C8, as stated, fails: answer 20 of question 10 is soft-deleted, and user 3, who did not
  ask question 10, asks to accept it. The endpoint answers 404 (\<open>src/server/routes/answers.js\<close>
  497-502) before it loads the question, not 403.
\<close>

theorem accept_deleted_answer_counterexample:
  "map_option question (answers deleted_db 20) = Some 10 \<and>
   map_option author (questions deleted_db 10) = Some 1 \<and>
   fst (accept_answer deleted_db 5 (accept_request 3 20)) = reply 404 False ''Answer not found''"
  by (simp add: deleted_db_def sample_db_def new_answer_def new_question_def accept_request_def
      accept_answer_def authenticate_def)

text \<open>
  C8, amended. An accept request of an authenticated user for an answer in the store whose
  question is in the store and was asked by someone else is answered 403 "Only the question
  author can accept answers", or 404 "Answer not found" when the answer is soft-deleted.
  Either way the endpoint writes nothing: no accepted flag, no pointer and no reputation
  changes.
\<close>

theorem accept_by_non_author_rejected:
  "token req = Token requester \<and> users s requester \<noteq> None \<and> params_id req = Some aid \<and>
   answers s aid = Some a \<and> questions s (question a) = Some q \<and> author q \<noteq> requester
   \<longrightarrow> accept_answer s now req =
         (if isDeleted a then reply 404 False ''Answer not found''
          else reply 403 False ''Only the question author can accept answers'', []) \<and>
       final s (accept_answer s now req) = s"
  by (auto simp: accept_answer_def authenticate_def final_def)

theorem accept_by_non_author_rejected_witness:
  "accept_answer sample_db 5 (accept_request 3 20) =
     (reply 403 False ''Only the question author can accept answers'', []) \<and>
   final sample_db (accept_answer sample_db 5 (accept_request 3 20)) = sample_db"
proof -
  have h: "token (accept_request 3 20) = Token 3 \<and> users sample_db 3 \<noteq> None \<and>
           params_id (accept_request 3 20) = Some 20 \<and>
           answers sample_db 20 = Some (new_answer 2 10) \<and>
           questions sample_db (question (new_answer 2 10)) = Some (new_question 1) \<and>
           author (new_question 1) \<noteq> 3 \<and> \<not> isDeleted (new_answer 2 10)"
    by (simp add: sample_db_def accept_request_def new_question_def new_answer_def)
  show ?thesis
    using h accept_by_non_author_rejected [of "accept_request 3 20" 3 sample_db 20 "new_answer 2 10"
          "new_question 1" 5]
    by (simp add: final_def)
qed

text \<open>
  C9, as stated, fails: question 10 is closed as a duplicate and user 3, who is not its
  author, upvotes it. The vote endpoint never reads \<open>isClosed\<close>: it answers 200, records the
  upvote, sets the tally to 1 and adds 5 to the author's reputation.
\<close>

theorem vote_closed_question_counterexample:
  "map_option isClosed (questions closed_db 10) = Some True \<and>
   status (fst (vote_question closed_db 5 (vote_request 3 10 ''upvote''))) = 200 \<and>
   map_option upvoters (questions (final closed_db (vote_question closed_db 5 (vote_request 3 10 ''upvote''))) 10)
     = Some {3} \<and>
   map_option votes (questions (final closed_db (vote_question closed_db 5 (vote_request 3 10 ''upvote''))) 10)
     = Some 1 \<and>
   users (final closed_db (vote_question closed_db 5 (vote_request 3 10 ''upvote''))) 1
     = Some \<lparr>reputation = 5\<rparr>"
  by (simp add: closed_db_def sample_db_def reasoned_question_def new_question_def
      vote_request_def vote_question_def type_errors_Text
      authenticate_def final_def Let_def reply_def save_question_def validate_question_def
      closedReason_enum_def save_content_def write_path_def save_user_def
      notifyUpvote_def createNotification_def updateReputation_def upvoters_def
      addUpvote_def pre_save_def)

text \<open>
  C9, amended. The vote endpoint does not consult \<open>isClosed\<close>: a vote request on a closed
  question is never rejected for that. One that passes the checks of the endpoint (valid
  token, a type that passes the validation, the author exists and is not the voter) is handled
  as one on an open question. When \<open>save()\<close> accepts the question, it is answered 200, the
  stored question becomes the result of \<open>addUpvote\<close> (type the string \<open>upvote\<close>) or of
  \<open>addDownvote\<close>, still closed, and the author's reputation changes by 5 or -2. When
  \<open>save()\<close> rejects the question, it is answered 500 "Server error while voting" and
  nothing is written.
\<close>

theorem vote_ignores_closed:
  "isClosed q \<and> token req = Token voter \<and> users s voter \<noteq> None \<and>
   type_errors (body_type req) = [] \<and> params_id req = Some qid \<and>
   questions s qid = Some q \<and> users s (author q) = Some authorDoc \<and> author q \<noteq> voter
   \<longrightarrow> (if validate_question q
        then status (fst (vote_question s now req)) = 200 \<and>
             questions (final s (vote_question s now req)) =
               (questions s)(qid \<mapsto> (if body_type req = Text ''upvote'' then addUpvote now voter q
                                      else addDownvote now voter q)) \<and>
             isClosed (if body_type req = Text ''upvote'' then addUpvote now voter q
                       else addDownvote now voter q) \<and>
             users (final s (vote_question s now req)) =
               (users s)(author q \<mapsto>
                  updateReputation (if body_type req = Text ''upvote'' then 5 else - 2) authorDoc)
        else vote_question s now req = (reply 500 False ''Server error while voting'', []) \<and>
             final s (vote_question s now req) = s)"
proof -
  have "isClosed (addUpvote now voter q) = isClosed q"
    and "isClosed (addDownvote now voter q) = isClosed q"
    by (simp_all add: addUpvote_def addDownvote_def pre_save_def Let_def)
  then show ?thesis
    using vote_question_accepted(1,2,3) [of req voter s qid q authorDoc now]
          vote_question_unsaved [of req voter s qid q authorDoc now]
    by (simp add: final_def)
qed

theorem vote_ignores_closed_witness:
  "status (fst (vote_question closed_db 5 (vote_request 3 10 ''downvote''))) = 200 \<and>
   questions (final closed_db (vote_question closed_db 5 (vote_request 3 10 ''downvote''))) 10 =
     Some (addDownvote 5 3 ((reasoned_question 1)\<lparr>isClosed := True\<rparr>)) \<and>
   users (final closed_db (vote_question closed_db 5 (vote_request 3 10 ''downvote''))) 1 =
     Some \<lparr>reputation = - 2\<rparr>"
proof -
  let ?q = "(reasoned_question 1)\<lparr>isClosed := True\<rparr>"
  have h: "isClosed ?q \<and>
           token (vote_request 3 10 ''downvote'') = Token 3 \<and> users closed_db 3 \<noteq> None \<and>
           type_errors (body_type (vote_request 3 10 ''downvote'')) = [] \<and>
           params_id (vote_request 3 10 ''downvote'') = Some 10 \<and>
           questions closed_db 10 = Some ?q \<and>
           users closed_db (author ?q) = Some \<lparr>reputation = 0\<rparr> \<and>
           author ?q \<noteq> 3"
    by (simp add: closed_db_def sample_db_def vote_request_def reasoned_question_def
        new_question_def type_errors_Text)
  have hv: "validate_question ?q"
    by (simp add: validate_question_def reasoned_question_def closedReason_enum_def)
  note c = mp [OF vote_ignores_closed [of ?q "vote_request 3 10 ''downvote''" 3 closed_db 10
          "\<lparr>reputation = 0\<rparr>" 5] h]
  show ?thesis
    using c hv by (simp add: vote_request_def reasoned_question_def new_question_def
        updateReputation_def)
qed

section \<open>Accepting an answer\<close>

text \<open>
  The writes of an accept request for answer \<open>B\<close> on a question whose pointer names another
  answer \<open>A\<close> that is in the store: all five when \<open>save()\<close> accepts the question, the
  first two when it rejects it.
\<close>

lemma accept_answer_replacing:
  fixes s :: db
  defines "s1 \<equiv> \<lambda>A a. s\<lparr>answers := (answers s)(A \<mapsto> a\<lparr>isAccepted := False, acceptedAt := None\<rparr>)\<rparr>"
  assumes tok: "token req = Token requester" and usr: "users s requester \<noteq> None"
    and par: "params_id req = Some B" and ans: "answers s B = Some b" and del: "\<not> isDeleted b"
    and qst: "questions s (question b) = Some q" and aut: "author q = requester"
    and ptr: "acceptedAnswer q = Some A" and neq: "A \<noteq> B" and old: "answers s A = Some a"
    and doc: "users s (author b) = Some authorDoc"
  shows "validate_question q \<Longrightarrow> accept_answer s now req =
     (reply 200 True ''Answer accepted successfully'',
      (let s2 = (s1 A a)\<lparr>answers := (answers (s1 A a))(B \<mapsto> accept now b)\<rparr>;
           s3 = s2\<lparr>questions := (questions s2)(question b \<mapsto> pre_save (q\<lparr>acceptedAnswer := Some B\<rparr>))\<rparr>;
           s4 = (if author b \<noteq> requester
                 then notifyAcceptedAnswer (author b) requester B (question b) s3 else s3);
           s5 = s4\<lparr>users := (users s4)(author b \<mapsto> updateReputation 15 authorDoc)\<rparr>
       in [s1 A a, s2, s3, s4, s5]))"
    and "\<not> validate_question q \<Longrightarrow> accept_answer s now req =
     (reply 500 False ''Server error while accepting answer'',
      [s1 A a, (s1 A a)\<lparr>answers := (answers (s1 A a))(B \<mapsto> accept now b)\<rparr>])"
proof -
  have f1: "Answer_findByIdAndUpdate A (\<lambda>d. d\<lparr>isAccepted := False, acceptedAt := None\<rparr>) s = s1 A a"
    using old by (simp add: Answer_findByIdAndUpdate_def s1_def)
  have f2: "answers (s1 A a) B = Some b"
    using ans neq by (simp add: s1_def)
  have f3: "questions ((s1 A a)\<lparr>answers := (answers (s1 A a))(B \<mapsto> accept now b)\<rparr>) (question b) = Some q"
    using qst by (simp add: s1_def)
  have f4: "users (notifyAcceptedAnswer (author b) requester B (question b) s') (author b) = users s' (author b)" for s'
    by (simp add: notifyAcceptedAnswer_def createNotification_fields)
  have f5: "users ((s1 A a)\<lparr>answers := X, questions := Y\<rparr>) = users s" for X Y
    by (simp add: s1_def)
  obtain rd where rd: "users s requester = Some rd"
    using usr by blast
  show "validate_question q \<Longrightarrow> accept_answer s now req =
     (reply 200 True ''Answer accepted successfully'',
      (let s2 = (s1 A a)\<lparr>answers := (answers (s1 A a))(B \<mapsto> accept now b)\<rparr>;
           s3 = s2\<lparr>questions := (questions s2)(question b \<mapsto> pre_save (q\<lparr>acceptedAnswer := Some B\<rparr>))\<rparr>;
           s4 = (if author b \<noteq> requester
                 then notifyAcceptedAnswer (author b) requester B (question b) s3 else s3);
           s5 = s4\<lparr>users := (users s4)(author b \<mapsto> updateReputation 15 authorDoc)\<rparr>
       in [s1 A a, s2, s3, s4, s5]))"
    using tok rd par ans del qst aut ptr doc
    by (auto simp: accept_answer_def authenticate_def f1 save_answer_loaded [OF f2]
        save_question_loaded [OF f3] validate_question_pointer Let_def save_user_loaded f4 f5)
  show "\<not> validate_question q \<Longrightarrow> accept_answer s now req =
     (reply 500 False ''Server error while accepting answer'',
      [s1 A a, (s1 A a)\<lparr>answers := (answers (s1 A a))(B \<mapsto> accept now b)\<rparr>])"
    using tok rd par ans del qst aut ptr doc
    by (auto simp: accept_answer_def authenticate_def f1 save_answer_loaded [OF f2]
        save_question_rejected validate_question_pointer Let_def)
qed

text \<open>The store \<open>reasoned_db\<close> after answer 20 has been accepted.\<close>

lemma accepted_db_value:
  "accepted_db =
     \<lparr>questions = [10 \<mapsto> (reasoned_question 1)\<lparr>acceptedAnswer := Some 20\<rparr>],
      answers = [20 \<mapsto> (new_answer 2 10)\<lparr>isAccepted := True, acceptedAt := Some 1\<rparr>,
                 21 \<mapsto> new_answer 3 10],
      users = [1 \<mapsto> \<lparr>reputation = 0\<rparr>, 2 \<mapsto> \<lparr>reputation = 15\<rparr>, 3 \<mapsto> \<lparr>reputation = 0\<rparr>],
      notifications = [\<lparr>recipient = 2, sender = 1, kind = ''accept'',
                        relatedQuestion = Some 10, relatedAnswer = Some 20\<rparr>]\<rparr>"
  by (simp add: accepted_db_def final_def accept_answer_def accept_request_def reasoned_db_def
      sample_db_def authenticate_def new_answer_def new_question_def reasoned_question_def
      save_answer_def save_question_def validate_question_def closedReason_enum_def
      save_content_def write_path_def accept_def pre_save_def save_user_def updateReputation_def
      notifyAcceptedAnswer_def createNotification_def Let_def fun_upd_twist)

lemma validate_accepted_question:
  "validate_question ((reasoned_question 1)\<lparr>acceptedAnswer := x\<rparr>)"
  by (simp add: validate_question_def reasoned_question_def closedReason_enum_def)

text \<open>
  C7, as stated, fails between the writes: question 10 points at its accepted answer 20 and
  its author accepts answer 21. The first write (\<open>src/server/routes/answers.js\<close> 523-526) clears the
  flag of answer 20 while the question still points at it, and the pointer is only moved by
  the third write (line 534): in the store after the first write the question points at an
  answer that is not marked accepted. The request is answered 200: question 10 holds a
  reason, so \<open>save()\<close> accepts it.
\<close>

theorem accept_transient_pointer_counterexample:
  "marked_accepted accepted_db 10 20 \<and>
   map_option acceptedAnswer (questions accepted_db 10) = Some (Some 20) \<and>
   status (fst (accept_answer accepted_db 5 (accept_request 1 21))) = 200 \<and>
   points_at_unaccepted (hd (snd (accept_answer accepted_db 5 (accept_request 1 21)))) 10"
proof -
  let ?a = "(new_answer 2 10)\<lparr>isAccepted := True, acceptedAt := Some 1\<rparr>"
  let ?q = "(reasoned_question 1)\<lparr>acceptedAnswer := Some 20\<rparr>"
  have h1: "token (accept_request 1 21) = Token 1" and h2: "users accepted_db 1 \<noteq> None"
    and h3: "params_id (accept_request 1 21) = Some 21"
    and h4: "answers accepted_db 21 = Some (new_answer 3 10)"
    and h5: "\<not> isDeleted (new_answer 3 10)"
    and h6: "questions accepted_db (question (new_answer 3 10)) = Some ?q"
    and h7: "author ?q = 1" and h8: "acceptedAnswer ?q = Some 20" and h9: "(20::nat) \<noteq> 21"
    and h10: "answers accepted_db 20 = Some ?a"
    and h11: "users accepted_db (author (new_answer 3 10)) = Some \<lparr>reputation = 0\<rparr>"
    by (simp_all add: accepted_db_value accept_request_def new_answer_def new_question_def
        reasoned_question_def)
  note out = accept_answer_replacing(1)
    [OF h1 h2 h3 h4 h5 h6 h7 h8 h9 h10 h11 validate_accepted_question, of 5]
  show ?thesis
    unfolding out
    by (simp add: Let_def reply_def points_at_unaccepted_def marked_accepted_def
        accepted_db_value new_answer_def new_question_def reasoned_question_def)
qed

text \<open>
  C7, amended. Let the author of a question accept answer \<open>B\<close> (in the store, not deleted,
  its author exists) while the question points at another answer \<open>A\<close> that is in the store
  and is the only answer of the question marked accepted, and let the accept succeed, which
  it does when \<open>save()\<close> accepts the question. Then the request is answered 200; when it has
  been handled \<open>A\<close> has \<open>isAccepted = false\<close> and no acceptance time, \<open>B\<close> has
  \<open>isAccepted = true\<close>, the question points at \<open>B\<close>, so at an answer marked accepted; and
  after each write of the request at most one answer of the question is marked accepted.
  After the first write, which clears the flag of \<open>A\<close>, and after the second, which saves
  \<open>B\<close> as accepted, the question still points at \<open>A\<close>, which is not marked accepted.
\<close>

theorem accept_replaces_accepted:
  assumes "token req = Token requester" and "users s requester \<noteq> None"
    and "params_id req = Some B" and "answers s B = Some b" and "\<not> isDeleted b"
    and "questions s (question b) = Some q" and "author q = requester"
    and "acceptedAnswer q = Some A" and "A \<noteq> B" and "answers s A = Some a"
    and "users s (author b) = Some authorDoc" and "validate_question q"
    and "\<forall>x. marked_accepted s (question b) x \<longrightarrow> x = A"
  shows "status (fst (accept_answer s now req)) = 200 \<and>
         answers (final s (accept_answer s now req)) A =
           Some (a\<lparr>isAccepted := False, acceptedAt := None\<rparr>) \<and>
         map_option isAccepted (answers (final s (accept_answer s now req)) B) = Some True \<and>
         map_option acceptedAnswer (questions (final s (accept_answer s now req)) (question b)) =
           Some (Some B) \<and>
         \<not> points_at_unaccepted (final s (accept_answer s now req)) (question b) \<and>
         (\<forall>t \<in> set (snd (accept_answer s now req)). \<forall>x y.
            marked_accepted t (question b) x \<and> marked_accepted t (question b) y \<longrightarrow> x = y) \<and>
         points_at_unaccepted (snd (accept_answer s now req) ! 0) (question b) \<and>
         points_at_unaccepted (snd (accept_answer s now req) ! 1) (question b)"
proof -
  define s1 where "s1 = s\<lparr>answers := (answers s)(A \<mapsto> a\<lparr>isAccepted := False, acceptedAt := None\<rparr>)\<rparr>"
  define s2 where "s2 = s1\<lparr>answers := (answers s1)(B \<mapsto> accept now b)\<rparr>"
  define s3 where "s3 = s2\<lparr>questions := (questions s2)(question b \<mapsto> pre_save (q\<lparr>acceptedAnswer := Some B\<rparr>))\<rparr>"
  define s4 where "s4 = (if author b \<noteq> requester
                 then notifyAcceptedAnswer (author b) requester B (question b) s3 else s3)"
  define s5 where "s5 = s4\<lparr>users := (users s4)(author b \<mapsto> updateReputation 15 authorDoc)\<rparr>"
  have out: "accept_answer s now req =
               (reply 200 True ''Answer accepted successfully'', [s1, s2, s3, s4, s5])"
    using accept_answer_replacing(1) [OF assms(1-12), of now]
    by (simp add: s1_def s2_def s3_def s4_def s5_def Let_def)
  have a1: "answers s1 = (answers s)(A \<mapsto> a\<lparr>isAccepted := False, acceptedAt := None\<rparr>)"
    by (simp add: s1_def)
  have a2: "answers s2 = (answers s1)(B \<mapsto> accept now b)"
    by (simp add: s2_def)
  have a3: "answers s3 = answers s2"
    by (simp add: s3_def)
  have a4: "answers s4 = answers s2"
    by (simp add: s4_def a3 notifyAcceptedAnswer_def createNotification_fields)
  have a5: "answers s5 = answers s2"
    by (simp add: s5_def a4)
  have q5: "questions s5 (question b) = Some (pre_save (q\<lparr>acceptedAnswer := Some B\<rparr>))"
    by (simp add: s5_def s4_def s3_def notifyAcceptedAnswer_def createNotification_fields)
  have acc: "question (accept now b) = question b \<and> isAccepted (accept now b)"
    by (simp add: accept_def pre_save_def)
  have m1: "\<not> marked_accepted s1 (question b) x" for x
    using assms(13) by (auto simp: marked_accepted_def a1 split: option.splits)
  have m2: "marked_accepted s2 (question b) x = (x = B)" for x
    using m1 [of x] acc by (simp add: marked_accepted_def a2 split: option.splits)
  have m3: "marked_accepted t (question b) x = (x = B)" if "answers t = answers s2" for t x
    using m2 [of x] that by (simp add: marked_accepted_def)
  have fin: "final s (accept_answer s now req) = s5"
    by (simp add: out final_def)
  have one: "\<forall>x y. marked_accepted t (question b) x \<and> marked_accepted t (question b) y \<longrightarrow> x = y"
    if "t \<in> set [s1, s2, s3, s4, s5]" for t
    using that m1 m3 [OF a3] m3 [OF a4] m3 [OF a5] m2 by auto
  have "status (fst (accept_answer s now req)) = 200"
    by (simp add: out reply_def)
  moreover have "answers s5 A = Some (a\<lparr>isAccepted := False, acceptedAt := None\<rparr>)"
    using assms(9) by (simp add: a5 a2 a1)
  moreover have "map_option isAccepted (answers s5 B) = Some True"
    using acc by (simp add: a5 a2)
  moreover have "map_option acceptedAnswer (questions s5 (question b)) = Some (Some B)"
    by (simp add: q5 pre_save_def)
  moreover have "\<not> points_at_unaccepted s5 (question b)"
    using m3 [OF a5, of B] by (simp add: points_at_unaccepted_def q5 pre_save_def)
  moreover have "points_at_unaccepted s1 (question b)"
    using assms(6,8) m1 [of A] by (simp add: points_at_unaccepted_def s1_def)
  moreover have "points_at_unaccepted s2 (question b)"
    using assms(6,8,9) m2 [of A] by (simp add: points_at_unaccepted_def s2_def s1_def)
  ultimately show ?thesis
    unfolding fin using one by (simp add: out)
qed

theorem accept_replaces_accepted_witness:
  "status (fst (accept_answer accepted_db 5 (accept_request 1 21))) = 200 \<and>
   map_option isAccepted (answers (final accepted_db (accept_answer accepted_db 5 (accept_request 1 21))) 20)
     = Some False \<and>
   map_option acceptedAt (answers (final accepted_db (accept_answer accepted_db 5 (accept_request 1 21))) 20)
     = Some None \<and>
   map_option isAccepted (answers (final accepted_db (accept_answer accepted_db 5 (accept_request 1 21))) 21)
     = Some True \<and>
   map_option acceptedAnswer (questions (final accepted_db (accept_answer accepted_db 5 (accept_request 1 21))) 10)
     = Some (Some 21) \<and>
   points_at_unaccepted (snd (accept_answer accepted_db 5 (accept_request 1 21)) ! 0) 10 \<and>
   points_at_unaccepted (snd (accept_answer accepted_db 5 (accept_request 1 21)) ! 1) 10"
proof -
  let ?a = "(new_answer 2 10)\<lparr>isAccepted := True, acceptedAt := Some 1\<rparr>"
  let ?q = "(reasoned_question 1)\<lparr>acceptedAnswer := Some 20\<rparr>"
  have h1: "token (accept_request 1 21) = Token 1" and h2: "users accepted_db 1 \<noteq> None"
    and h3: "params_id (accept_request 1 21) = Some 21"
    and h4: "answers accepted_db 21 = Some (new_answer 3 10)"
    and h5: "\<not> isDeleted (new_answer 3 10)"
    and h6: "questions accepted_db (question (new_answer 3 10)) = Some ?q"
    and h7: "author ?q = 1" and h8: "acceptedAnswer ?q = Some 20" and h9: "(20::nat) \<noteq> 21"
    and h10: "answers accepted_db 20 = Some ?a"
    and h11: "users accepted_db (author (new_answer 3 10)) = Some \<lparr>reputation = 0\<rparr>"
    by (simp_all add: accepted_db_value accept_request_def new_answer_def new_question_def
        reasoned_question_def)
  have h12: "validate_question ?q"
    by (rule validate_accepted_question)
  have h13: "\<forall>x. marked_accepted accepted_db (question (new_answer 3 10)) x \<longrightarrow> x = 20"
    by (simp add: accepted_db_value marked_accepted_def new_answer_def)
  note c = accept_replaces_accepted [OF h1 h2 h3 h4 h5 h6 h7 h8 h9 h10 h11 h12 h13, of 5]
  show ?thesis
    using c by (simp add: new_answer_def)
qed

text \<open>
  When \<open>save()\<close> rejects the question, the same request is answered 500 after its first two
  writes: \<open>A\<close> is no longer marked accepted, \<open>B\<close> is, and the question keeps pointing at
  \<open>A\<close>.
\<close>

lemma accept_unsaved_question:
  assumes "token req = Token requester" and "users s requester \<noteq> None"
    and "params_id req = Some B" and "answers s B = Some b" and "\<not> isDeleted b"
    and "questions s (question b) = Some q" and "author q = requester"
    and "acceptedAnswer q = Some A" and "A \<noteq> B" and "answers s A = Some a"
    and "users s (author b) = Some authorDoc" and "\<not> validate_question q"
  shows "status (fst (accept_answer s now req)) = 500"
    and "questions (final s (accept_answer s now req)) = questions s"
    and "users (final s (accept_answer s now req)) = users s"
    and "answers (final s (accept_answer s now req)) =
           (answers s)(A \<mapsto> a\<lparr>isAccepted := False, acceptedAt := None\<rparr>, B \<mapsto> accept now b)"
  using accept_answer_replacing(2) [OF assms(1-12), of now]
  by (simp_all add: final_def reply_def)

text \<open>
  C10. A repeated accept request for the answer \<open>B\<close> the question already points at leaves
  the question pointing at \<open>B\<close>, and, when \<open>save()\<close> accepts the question, is answered 200
  and adds 15 to the reputation of the author of \<open>B\<close>. The accepted flag of \<open>B\<close> in the
  store, however, ends as the negation of what it was: the endpoint loads \<open>B\<close>, then clears
  the flag of the answer the question points at, which is \<open>B\<close> itself, in the store
  (\<open>src/server/routes/answers.js\<close> 522-527), and then calls \<open>accept\<close> on the copy it loaded.
  When that copy was loaded with \<open>isAccepted = true\<close>, the assignment of \<open>Answer.js\<close> line
  162 changes nothing, the path is not written by \<open>save()\<close>, and the store keeps
  \<open>isAccepted = false\<close> for an answer the question points at. When \<open>save()\<close> rejects the
  question, the flag is flipped all the same, the request is answered 500 and no reputation
  changes.
\<close>

theorem repeated_accept_flips_flag:
  assumes "token req = Token requester" and "users s requester = Some rd"
    and "params_id req = Some B" and "answers s B = Some b" and "\<not> isDeleted b"
    and "questions s (question b) = Some q" and "author q = requester"
    and "acceptedAnswer q = Some B" and "users s (author b) = Some authorDoc"
  shows "map_option isAccepted (answers (final s (accept_answer s now req)) B) = Some (\<not> isAccepted b) \<and>
         map_option acceptedAnswer (questions (final s (accept_answer s now req)) (question b)) = Some (Some B) \<and>
         (if validate_question q
          then status (fst (accept_answer s now req)) = 200 \<and>
               users (final s (accept_answer s now req)) =
                 (users s)(author b \<mapsto> updateReputation 15 authorDoc)
          else status (fst (accept_answer s now req)) = 500 \<and>
               users (final s (accept_answer s now req)) = users s)"
proof (cases "validate_question q")
  case True
  with assms show ?thesis
    by (auto simp: accept_answer_def authenticate_def final_def Let_def reply_def
        Answer_findByIdAndUpdate_def save_answer_def save_question_def save_content_def
        write_path_def accept_def pre_save_def save_user_def validate_question_def
        notifyAcceptedAnswer_def createNotification_def)
next
  case False
  with assms show ?thesis
    by (auto simp: accept_answer_def authenticate_def final_def Let_def reply_def
        Answer_findByIdAndUpdate_def save_answer_def save_question_def save_content_def
        write_path_def accept_def pre_save_def validate_question_def)
qed

theorem repeated_accept_flips_flag_witness:
  "marked_accepted accepted_db 10 20 \<and>
   map_option acceptedAnswer (questions accepted_db 10) = Some (Some 20) \<and>
   users accepted_db 2 = Some \<lparr>reputation = 15\<rparr> \<and>
   status (fst (accept_answer accepted_db 5 (accept_request 1 20))) = 200 \<and>
   map_option acceptedAnswer
     (questions (final accepted_db (accept_answer accepted_db 5 (accept_request 1 20))) 10) = Some (Some 20) \<and>
   users (final accepted_db (accept_answer accepted_db 5 (accept_request 1 20))) 2 =
     Some \<lparr>reputation = 30\<rparr> \<and>
   map_option isAccepted
     (answers (final accepted_db (accept_answer accepted_db 5 (accept_request 1 20))) 20) = Some False"
proof -
  let ?b = "(new_answer 2 10)\<lparr>isAccepted := True, acceptedAt := Some 1\<rparr>"
  let ?q = "(reasoned_question 1)\<lparr>acceptedAnswer := Some 20\<rparr>"
  have h1: "token (accept_request 1 20) = Token 1"
    and h2: "users accepted_db 1 = Some \<lparr>reputation = 0\<rparr>"
    and h3: "params_id (accept_request 1 20) = Some 20"
    and h4: "answers accepted_db 20 = Some ?b"
    and h5: "\<not> isDeleted ?b"
    and h6: "questions accepted_db (question ?b) = Some ?q"
    and h7: "author ?q = 1" and h8: "acceptedAnswer ?q = Some 20"
    and h9: "users accepted_db (author ?b) = Some \<lparr>reputation = 15\<rparr>"
    by (simp_all add: accepted_db_value accept_request_def new_answer_def new_question_def
        reasoned_question_def)
  have hv: "validate_question ?q"
    by (rule validate_accepted_question)
  have before: "marked_accepted accepted_db 10 20 \<and>
                map_option acceptedAnswer (questions accepted_db 10) = Some (Some 20) \<and>
                users accepted_db 2 = Some \<lparr>reputation = 15\<rparr>"
    by (simp add: accepted_db_value marked_accepted_def new_answer_def new_question_def
        reasoned_question_def)
  note c = repeated_accept_flips_flag [OF h1 h2 h3 h4 h5 h6 h7 h8 h9, of 5]
  show ?thesis
    using before c hv by (simp add: new_answer_def updateReputation_def)
qed

end
